theory Spec2Isabelle
  imports Main
begin

section \<open>TensorsToSegmentationCalculator: data model\<close>

text \<open>
  The calculator of \<^verbatim>\<open>tensors_to_segmentation_calculator.cc\<close> routes a batch of
  tensors to a GPU or a CPU converter, which it builds lazily and keeps. The converters,
  the tensors, the options message and the status macros are declared in other files;
  what this file reads of them is modelled below, each with a note on where it comes from.
\<close>

text \<open>The canonical codes of \<^verbatim>\<open>absl::Status\<close>.\<close>

datatype StatusCode =
    kCancelled | kUnknown | kInvalidArgument | kDeadlineExceeded | kNotFound
  | kAlreadyExists | kPermissionDenied | kResourceExhausted | kFailedPrecondition
  | kAborted | kOutOfRange | kUnimplemented | kInternal | kUnavailable | kDataLoss
  | kUnauthenticated

datatype Error = Error StatusCode string

text \<open>\<^verbatim>\<open>absl::Status\<close>; an \<^verbatim>\<open>absl::StatusOr<T>\<close> is \<open>Error + T\<close>.\<close>

datatype Status = OkStatus | Failed Error

text \<open>
  \<^verbatim>\<open>Tensor::ElementType\<close> is declared in \<^verbatim>\<open>formats/tensor.h\<close>; the calculator only
  compares it with \<^verbatim>\<open>kFloat32\<close>.
\<close>

datatype ElementType = kNone | kFloat16 | kFloat32 | kUInt8 | kInt8 | kInt32 | kChar | kBool

record Tensor =
  element_type :: ElementType
  dims :: "int list"
  ready_on_gpu :: bool

text \<open>
  The options message (\<^verbatim>\<open>tensors_to_segmentation_calculator.proto\<close>): the calculator
  itself reads the activation only, the other fields go to the converters.
\<close>

datatype Activation = NONE | SIGMOID | SOFTMAX

datatype GpuOrigin = DEFAULT | CONVENTIONAL | TOP_LEFT

record Options =
  activation :: Activation
  output_layer_index :: int
  gpu_origin :: GpuOrigin

text \<open>Converters and images are opaque to the calculator: handles.\<close>

datatype Converter = ConverterHandle nat

datatype Image = ImageHandle nat

datatype Backend = GPU | CPU

text \<open>
  What the preprocessor and the platform decide: the value of \<^verbatim>\<open>CanUseGpu()\<close> (a helper
  of \<^verbatim>\<open>tensors_to_segmentation_utils\<close>), whether the GPU branches are compiled
  (\<^verbatim>\<open>!MEDIAPIPE_DISABLE_GPU\<close>) and whether the OpenCV branches are
  (\<^verbatim>\<open>!MEDIAPIPE_DISABLE_OPENCV\<close>). They are parameters of the model.
\<close>

record Build =
  CanUseGpu :: bool
  GPU_ENABLED :: bool
  OPENCV_ENABLED :: bool

text \<open>
  The external collaborators as they answer during one invocation: the factory of the GPU
  converter the build links (\<^verbatim>\<open>CreateGlBufferConverter\<close>, \<^verbatim>\<open>CreateMetalConverter\<close> or
  \<^verbatim>\<open>CreateGlTextureConverter\<close>), \<^verbatim>\<open>CreateOpenCvConverter\<close>, and the converters' method
  \<^verbatim>\<open>Convert\<close>.
\<close>

record Collaborators =
  CreateGpuConverter :: "Options \<Rightarrow> Error + Converter"
  CreateOpenCvConverter :: "Options \<Rightarrow> Error + Converter"
  Convert :: "Converter \<Rightarrow> Tensor list \<Rightarrow> int \<Rightarrow> int \<Rightarrow> Error + Image"

text \<open>
  The \<^verbatim>\<open>OUTPUT_SIZE\<close> input of the node: the stream is not connected
  (\<^verbatim>\<open>HasTag\<close> is false), or it is connected and holds a packet at this timestamp or none.
\<close>

datatype OutputSizeInput = NoTag | Tag "(int \<times> int) option"

text \<open>
  The calculator context of one call: the \<^verbatim>\<open>TENSORS\<close> packet (\<open>None\<close> when
  \<^verbatim>\<open>IsEmpty()\<close>), the \<^verbatim>\<open>OUTPUT_SIZE\<close> input, the input timestamp, and the node's options.
\<close>

record CalculatorContext =
  TENSORS :: "Tensor list option"
  OUTPUT_SIZE :: OutputSizeInput
  InputTimestamp :: int
  NodeOptions :: Options

text \<open>
  The members of the calculator object, \<^verbatim>\<open>options_\<close>, \<^verbatim>\<open>cpu_converter_\<close> and
  \<^verbatim>\<open>gpu_converter_\<close> (a name cannot end in an underscore here, hence the \<open>m\<close>). A null
  \<^verbatim>\<open>unique_ptr\<close> is \<open>None\<close>.
\<close>

record Calculator =
  options_m :: Options
  cpu_converter_m :: "Converter option"
  gpu_converter_m :: "Converter option"

text \<open>
  The steps of a call, in program order. \<open>SelectBackend\<close> and \<open>ValidateInput\<close> mark the
  two pure blocks of \<^verbatim>\<open>Process\<close> (the residency scan and the validation block);
  \<open>Construct\<close> is a call of a converter factory, \<open>ConvertCall\<close> a call of \<^verbatim>\<open>Convert\<close>
  with its arguments, \<open>AddMask\<close> the emission of a mask on \<^verbatim>\<open>MASK\<close> with its timestamp,
  \<open>SetOffset\<close> the call of \<^verbatim>\<open>cc->SetOffset\<close>.
\<close>

datatype Event =
    SelectBackend Backend
  | ValidateInput
  | Construct Backend
  | ConvertCall Backend Converter "Tensor list" int int
  | AddMask Image int
  | SetOffset int

text \<open>
  A call of \<^verbatim>\<open>Process\<close> returns a status, or the process is terminated inside the call.
\<close>

datatype ProcessResult = Returns Status | Aborts

section \<open>Helpers declared outside the file\<close>

definition RET_CHECK_failure :: "string \<Rightarrow> Error" where
  \<comment> \<open>Modelled from the spec: the status of a failed \<^verbatim>\<open>RET_CHECK\<close> or \<^verbatim>\<open>RET_CHECK_EQ\<close>
      (macros of \<^verbatim>\<open>port/ret_check.h\<close>, absent here); the spec classes every failed input
      check as InvalidArgument.\<close>
  "RET_CHECK_failure msg = Error kInvalidArgument msg"

definition RET_CHECK_FAIL :: "string \<Rightarrow> Error" where
  \<comment> \<open>Modelled from the spec: the status of \<^verbatim>\<open>RET_CHECK_FAIL()\<close> (same absent header),
      which the file uses only where a backend is compiled out; the spec classes that as
      FailedPrecondition. The message is the one the source streams into it.\<close>
  "RET_CHECK_FAIL msg = Error kFailedPrecondition msg"

fun GetHwcFromDims :: "int list \<Rightarrow> Error + (int \<times> int \<times> int)" where
  \<comment> \<open>Modelled from the spec: \<^verbatim>\<open>GetHwcFromDims\<close> of \<^verbatim>\<open>tensors_to_segmentation_utils\<close>, which
      is absent here. A 3-D shape is (height, width, channels); a 4-D shape is
      (batch, height, width, channels) and the batch must be 1; other ranks are rejected.\<close>
  "GetHwcFromDims [h, w, c] = Inr (h, w, c)"
| "GetHwcFromDims [b, h, w, c] =
     (if b = 1 then Inr (h, w, c)
      else Inl (Error kInvalidArgument ''unsupported batch size''))"
| "GetHwcFromDims ds = Inl (Error kInvalidArgument ''unsupported tensor rank'')"

section \<open>The calculator\<close>

text \<open>Lines 196 to 205: the residency scan, a loop that stops at the first hit.\<close>

fun any_ready_on_gpu :: "Tensor list \<Rightarrow> bool" where
  "any_ready_on_gpu [] = False"
| "any_ready_on_gpu (tensor # rest) =
     (if ready_on_gpu tensor then True else any_ready_on_gpu rest)"

definition use_gpu_of :: "Build \<Rightarrow> Tensor list \<Rightarrow> bool" where
  "use_gpu_of b input_tensors =
     (if CanUseGpu b then any_ready_on_gpu input_tensors else False)"

definition backend_of :: "bool \<Rightarrow> Backend" where
  "backend_of use_gpu = (if use_gpu then GPU else CPU)"

text \<open>Lines 207 to 226: the validation block.\<close>

definition check_channels :: "Activation \<Rightarrow> int \<Rightarrow> Status" where
  "check_channels act tensor_channels =
     (case act of
        NONE \<Rightarrow> if tensor_channels = 1 then OkStatus
                else Failed (RET_CHECK_failure ''channel count mismatch'')
      | SIGMOID \<Rightarrow> if tensor_channels = 1 then OkStatus
                   else Failed (RET_CHECK_failure ''channel count mismatch'')
      | SOFTMAX \<Rightarrow> if tensor_channels = 2 then OkStatus
                   else Failed (RET_CHECK_failure ''channel count mismatch''))"

definition ValidateTensors :: "Options \<Rightarrow> Tensor list \<Rightarrow> Status" where
  "ValidateTensors opts input_tensors =
     (case input_tensors of
        [] \<Rightarrow> Failed (RET_CHECK_failure ''empty tensor batch'')
      | first # _ \<Rightarrow>
          if element_type first \<noteq> kFloat32
          then Failed (RET_CHECK_failure ''unsupported element type'')
          else (case GetHwcFromDims (dims first) of
                  Inl e \<Rightarrow> Failed e
                | Inr (h, w, tensor_channels) \<Rightarrow>
                    check_channels (activation opts) tensor_channels))"

text \<open>Lines 115 to 144.\<close>

definition InitConverterIfNecessary ::
  "Build \<Rightarrow> Collaborators \<Rightarrow> bool \<Rightarrow> Calculator \<Rightarrow> Status \<times> Calculator \<times> Event list" where
  "InitConverterIfNecessary b env use_gpu calc =
     (if use_gpu then
        (if GPU_ENABLED b then
           (case gpu_converter_m calc of
              None \<Rightarrow>
                (case CreateGpuConverter env (options_m calc) of
                   Inl e \<Rightarrow> (Failed e, calc, [Construct GPU])
                 | Inr c \<Rightarrow> (OkStatus, calc\<lparr>gpu_converter_m := Some c\<rparr>, [Construct GPU]))
            | Some _ \<Rightarrow> (OkStatus, calc, []))
         else
           (Failed (RET_CHECK_FAIL
              ''Cannot initialize GPU converter because GPU processing is disabled.''),
            calc, []))
      else
        (if OPENCV_ENABLED b then
           (case cpu_converter_m calc of
              None \<Rightarrow>
                (case CreateOpenCvConverter env (options_m calc) of
                   Inl e \<Rightarrow> (Failed e, calc, [Construct CPU])
                 | Inr c \<Rightarrow> (OkStatus, calc\<lparr>cpu_converter_m := Some c\<rparr>, [Construct CPU]))
            | Some _ \<Rightarrow> (OkStatus, calc, []))
         else
           (Failed (RET_CHECK_FAIL
              ''Cannot initialize OpenCV converter because OpenCV processing is disabled.''),
            calc, [])))"

text \<open>
  Lines 243 to 247 and 255 to 259: the call of \<^verbatim>\<open>Convert\<close> through the cached pointer and
  the emission of the mask. A null pointer there would end the process.
\<close>

definition ConvertAndAdd ::
  "Collaborators \<Rightarrow> Backend \<Rightarrow> Converter option \<Rightarrow> Tensor list \<Rightarrow> int \<Rightarrow> int \<Rightarrow> int \<Rightarrow>
   ProcessResult \<times> Event list" where
  "ConvertAndAdd env bk converter input_tensors output_width output_height ts =
     (case converter of
        None \<Rightarrow> (Aborts, [])
      | Some conv \<Rightarrow>
          (case Convert env conv input_tensors output_width output_height of
             Inl e \<Rightarrow>
               (Returns (Failed e),
                [ConvertCall bk conv input_tensors output_width output_height])
           | Inr output_mask \<Rightarrow>
               (Returns OkStatus,
                [ConvertCall bk conv input_tensors output_width output_height,
                 AddMask output_mask ts])))"

text \<open>Lines 239 to 265.\<close>

definition RunBackend ::
  "Build \<Rightarrow> Collaborators \<Rightarrow> CalculatorContext \<Rightarrow> bool \<Rightarrow> Tensor list \<Rightarrow> int \<Rightarrow> int \<Rightarrow>
   Calculator \<Rightarrow> ProcessResult \<times> Calculator \<times> Event list" where
  "RunBackend b env cc use_gpu input_tensors output_width output_height calc =
     (if use_gpu then
        (if GPU_ENABLED b then
           (case InitConverterIfNecessary b env use_gpu calc of
              (Failed e, calc', evs) \<Rightarrow> (Returns (Failed e), calc', evs)
            | (OkStatus, calc', evs) \<Rightarrow>
                (case ConvertAndAdd env GPU (gpu_converter_m calc') input_tensors
                        output_width output_height (InputTimestamp cc) of
                   (r, evs') \<Rightarrow> (r, calc', evs @ evs')))
         else (Returns (Failed (RET_CHECK_FAIL ''GPU processing disabled.'')), calc, []))
      else
        (if OPENCV_ENABLED b then
           (case InitConverterIfNecessary b env use_gpu calc of
              (Failed e, calc', evs) \<Rightarrow> (Returns (Failed e), calc', evs)
            | (OkStatus, calc', evs) \<Rightarrow>
                (case ConvertAndAdd env CPU (cpu_converter_m calc') input_tensors
                        output_width output_height (InputTimestamp cc) of
                   (r, evs') \<Rightarrow> (r, calc', evs @ evs')))
         else (Returns (Failed (RET_CHECK_FAIL ''OpenCV processing disabled.'')), calc, [])))"

text \<open>
  Lines 231 to 237: the output size. When the stream is connected the code calls
  \<^verbatim>\<open>Get<std::pair<int, int>>()\<close> on its packet without asking \<^verbatim>\<open>IsEmpty()\<close>. \<^verbatim>\<open>Get\<close> is
  the framework's: an empty packet has no payload to return, and the framework ends the
  process there. \<open>None\<close> stands for that.
\<close>

definition output_size_of :: "OutputSizeInput \<Rightarrow> int \<Rightarrow> int \<Rightarrow> (int \<times> int) option" where
  "output_size_of inp tensor_width tensor_height =
     (case inp of
        NoTag \<Rightarrow> Some (tensor_width, tensor_height)
      | Tag None \<Rightarrow> None
      | Tag (Some sz) \<Rightarrow> Some (fst sz, snd sz))"

text \<open>Lines 188 to 266.\<close>

definition Process ::
  "Build \<Rightarrow> Collaborators \<Rightarrow> CalculatorContext \<Rightarrow> Calculator \<Rightarrow>
   ProcessResult \<times> Calculator \<times> Event list" where
  "Process b env cc calc =
     (case TENSORS cc of
        None \<Rightarrow> (Returns OkStatus, calc, [])
      | Some input_tensors \<Rightarrow>
          (let use_gpu = use_gpu_of b input_tensors;
               steps = [SelectBackend (backend_of use_gpu), ValidateInput]
           in case ValidateTensors (options_m calc) input_tensors of
                Failed e \<Rightarrow> (Returns (Failed e), calc, steps)
              | OkStatus \<Rightarrow>
                  (case GetHwcFromDims (dims (input_tensors ! 0)) of
                     Inl e \<Rightarrow> (Returns (Failed e), calc, steps)
                   | Inr (tensor_height, tensor_width, tensor_channels) \<Rightarrow>
                       (case output_size_of (OUTPUT_SIZE cc) tensor_width tensor_height of
                          None \<Rightarrow> (Aborts, calc, steps)
                        | Some (output_width, output_height) \<Rightarrow>
                            (case RunBackend b env cc use_gpu input_tensors
                                    output_width output_height calc of
                               (r, calc', evs) \<Rightarrow> (r, calc', steps @ evs))))))"

text \<open>Lines 268 to 274 and 180 to 186.\<close>

definition LoadOptions :: "CalculatorContext \<Rightarrow> Calculator \<Rightarrow> Status \<times> Calculator" where
  "LoadOptions cc calc = (OkStatus, calc\<lparr>options_m := NodeOptions cc\<rparr>)"

definition Open :: "CalculatorContext \<Rightarrow> Calculator \<Rightarrow> Status \<times> Calculator \<times> Event list" where
  "Open cc calc =
     (case LoadOptions cc calc of
        (Failed e, calc') \<Rightarrow> (Failed e, calc', [SetOffset 0])
      | (OkStatus, calc') \<Rightarrow> (OkStatus, calc', [SetOffset 0]))"

section \<open>Repeated calls\<close>

text \<open>
  The framework calls \<^verbatim>\<open>Process\<close> once per input timestamp on the same object. Each call
  has its own context and its own answers of the collaborators. The driver is not part of
  the file; it follows the specification's section on errors: a failed status ends that
  call only and the object stays usable for the next one. A terminated process ends the run.
\<close>

fun Run :: "Build \<Rightarrow> Calculator \<Rightarrow> (Collaborators \<times> CalculatorContext) list \<Rightarrow>
            Calculator \<times> Event list" where
  "Run b calc [] = (calc, [])"
| "Run b calc ((env, cc) # invs) =
     (case Process b env cc calc of
        (Aborts, calc', evs) \<Rightarrow> (calc', evs)
      | (Returns st, calc', evs) \<Rightarrow>
          (case Run b calc' invs of (calc'', evs') \<Rightarrow> (calc'', evs @ evs')))"

section \<open>Vocabulary of the properties\<close>

text \<open>Whether the branches of a backend are compiled, its cache member, its factory.\<close>

definition compiled :: "Build \<Rightarrow> Backend \<Rightarrow> bool" where
  "compiled b bk = (case bk of GPU \<Rightarrow> GPU_ENABLED b | CPU \<Rightarrow> OPENCV_ENABLED b)"

definition converter_of :: "Backend \<Rightarrow> Calculator \<Rightarrow> Converter option" where
  "converter_of bk calc =
     (case bk of GPU \<Rightarrow> gpu_converter_m calc | CPU \<Rightarrow> cpu_converter_m calc)"

definition set_converter :: "Backend \<Rightarrow> Converter option \<Rightarrow> Calculator \<Rightarrow> Calculator" where
  "set_converter bk x calc =
     (case bk of GPU \<Rightarrow> calc\<lparr>gpu_converter_m := x\<rparr> | CPU \<Rightarrow> calc\<lparr>cpu_converter_m := x\<rparr>)"

definition Create :: "Collaborators \<Rightarrow> Backend \<Rightarrow> Options \<Rightarrow> Error + Converter" where
  "Create env bk =
     (case bk of GPU \<Rightarrow> CreateGpuConverter env | CPU \<Rightarrow> CreateOpenCvConverter env)"

text \<open>The backend an event belongs to, and three classes of events.\<close>

fun event_backend :: "Event \<Rightarrow> Backend option" where
  "event_backend (SelectBackend bk) = Some bk"
| "event_backend (Construct bk) = Some bk"
| "event_backend (ConvertCall bk conv ts w h) = Some bk"
| "event_backend ev = None"

fun is_backend_work :: "Event \<Rightarrow> bool" where
  "is_backend_work (Construct bk) = True"
| "is_backend_work (ConvertCall bk conv ts w h) = True"
| "is_backend_work (AddMask img t) = True"
| "is_backend_work ev = False"


fun is_convert :: "Backend \<Rightarrow> Event \<Rightarrow> bool" where
  "is_convert bk (ConvertCall bk' conv ts w h) = (bk' = bk)"
| "is_convert bk ev = False"

definition count_constructs :: "Backend \<Rightarrow> Event list \<Rightarrow> nat" where
  "count_constructs bk evs = length (filter (\<lambda>e. e = Construct bk) evs)"

definition count_converts :: "Backend \<Rightarrow> Event list \<Rightarrow> nat" where
  "count_converts bk evs = length (filter (is_convert bk) evs)"

text \<open>
  A call that gets as far as the backend \<open>bk\<close>: a batch is present, the scan selects \<open>bk\<close>,
  the validation passes, and the output size can be read.
\<close>

definition reaches_backend :: "Build \<Rightarrow> Options \<Rightarrow> Backend \<Rightarrow> CalculatorContext \<Rightarrow> bool" where
  "reaches_backend b opts bk cc =
     (case TENSORS cc of
        None \<Rightarrow> False
      | Some ts \<Rightarrow> backend_of (use_gpu_of b ts) = bk \<and> ValidateTensors opts ts = OkStatus
                   \<and> OUTPUT_SIZE cc \<noteq> Tag None)"

text \<open>
  The channel count the specification asks for, in its words: NONE and SIGMOID need
  exactly one channel, SOFTMAX exactly two. It is compared with \<open>check_channels\<close> below.
\<close>

definition spec_required_channels :: "Activation \<Rightarrow> int" where
  "spec_required_channels act = (case act of NONE \<Rightarrow> 1 | SIGMOID \<Rightarrow> 1 | SOFTMAX \<Rightarrow> 2)"


section \<open>Concrete inputs\<close>

definition ex_options :: "Activation \<Rightarrow> Options" where
  "ex_options act = \<lparr>activation = act, output_layer_index = 0, gpu_origin = DEFAULT\<rparr>"

definition ex_calc :: Calculator where
  "ex_calc = \<lparr>options_m = ex_options SIGMOID, cpu_converter_m = None, gpu_converter_m = None\<rparr>"

definition ex_build :: Build where
  "ex_build = \<lparr>CanUseGpu = True, GPU_ENABLED = True, OPENCV_ENABLED = True\<rparr>"

text \<open>A build where \<^verbatim>\<open>CanUseGpu()\<close> holds and the GPU branches are compiled out.\<close>

definition ex_build_no_gpu :: Build where
  "ex_build_no_gpu = \<lparr>CanUseGpu = True, GPU_ENABLED = False, OPENCV_ENABLED = True\<rparr>"

definition ex_env :: Collaborators where
  "ex_env = \<lparr>CreateGpuConverter = (\<lambda>opts. Inr (ConverterHandle 1)),
             CreateOpenCvConverter = (\<lambda>opts. Inr (ConverterHandle 2)),
             Convert = (\<lambda>conv ts w h. Inr (ImageHandle 7))\<rparr>"

definition ex_env_failing :: Collaborators where
  "ex_env_failing =
     \<lparr>CreateGpuConverter = (\<lambda>opts. Inl (Error kUnavailable ''backend construction failed'')),
      CreateOpenCvConverter = (\<lambda>opts. Inl (Error kUnavailable ''backend construction failed'')),
      Convert = (\<lambda>conv ts w h. Inr (ImageHandle 7))\<rparr>"

definition ex_tensor :: "ElementType \<Rightarrow> int list \<Rightarrow> bool \<Rightarrow> Tensor" where
  "ex_tensor ty ds on_gpu = \<lparr>element_type = ty, dims = ds, ready_on_gpu = on_gpu\<rparr>"

definition ex_cc :: "Tensor list option \<Rightarrow> OutputSizeInput \<Rightarrow> CalculatorContext" where
  "ex_cc tensors out =
     \<lparr>TENSORS = tensors, OUTPUT_SIZE = out, InputTimestamp = 5, NodeOptions = ex_options SOFTMAX\<rparr>"

definition ex_call :: "Collaborators \<times> CalculatorContext" where
  "ex_call = (ex_env, ex_cc (Some [ex_tensor kFloat32 [256, 256, 1] False]) NoTag)"

definition ex_call_failing :: "Collaborators \<times> CalculatorContext" where
  "ex_call_failing =
     (ex_env_failing, ex_cc (Some [ex_tensor kFloat32 [256, 256, 1] False]) NoTag)"

lemmas ex_defs =
  ex_options_def ex_calc_def ex_build_def ex_build_no_gpu_def ex_env_def ex_env_failing_def
  ex_tensor_def ex_cc_def ex_call_def ex_call_failing_def

lemmas model_defs =
  Process_def RunBackend_def ConvertAndAdd_def InitConverterIfNecessary_def ValidateTensors_def
  check_channels_def output_size_of_def use_gpu_of_def backend_of_def RET_CHECK_failure_def
  RET_CHECK_FAIL_def Let_def

section \<open>The residency scan and the order of the steps\<close>

lemma any_ready_on_gpu_iff: "any_ready_on_gpu ts = (\<exists>t\<in>set ts. ready_on_gpu t)"
  by (induction ts) auto

lemma use_gpu_of_iff: "use_gpu_of b ts = (CanUseGpu b \<and> (\<exists>t\<in>set ts. ready_on_gpu t))"
  by (simp add: use_gpu_of_def any_ready_on_gpu_iff)

lemma Init_events:
  "InitConverterIfNecessary b env use_gpu calc = (st, calc', evs) \<Longrightarrow>
   evs = [] \<or> evs = [Construct (backend_of use_gpu)]"
  by (auto simp: InitConverterIfNecessary_def backend_of_def
      split: if_splits option.splits sum.splits)

lemma ConvertAndAdd_events:
  "ConvertAndAdd env bk c ts w h t = (r, evs) \<Longrightarrow>
   \<forall>e\<in>set evs. event_backend e = None \<or> event_backend e = Some bk"
  by (auto simp: ConvertAndAdd_def split: option.splits sum.splits)

lemma RunBackend_events:
  "RunBackend b env cc use_gpu ts w h calc = (r, calc', evs) \<Longrightarrow>
   \<forall>e\<in>set evs. event_backend e = None \<or> event_backend e = Some (backend_of use_gpu)"
  unfolding RunBackend_def
  by (auto simp: backend_of_def split: if_splits prod.splits Status.splits
      dest!: Init_events ConvertAndAdd_events)

lemma Process_events:
  "TENSORS cc = Some ts \<Longrightarrow> Process b env cc calc = (r, calc', evs) \<Longrightarrow>
   \<exists>rest. evs = SelectBackend (backend_of (use_gpu_of b ts)) # ValidateInput # rest \<and>
     (\<forall>e\<in>set rest. event_backend e = None \<or>
                   event_backend e = Some (backend_of (use_gpu_of b ts)))"
  unfolding Process_def Let_def
  by (auto split: Status.splits sum.splits option.splits prod.splits dest!: RunBackend_events)

text \<open>
  Claim C1. Whenever a batch is present, the scan selects GPU exactly when \<^verbatim>\<open>CanUseGpu()\<close>
  holds and some tensor of the batch is ready on GPU, and CPU in the three other
  combinations; the call starts with that selection, and every later factory or
  \<^verbatim>\<open>Convert\<close> call is for the selected backend.
\<close>

theorem backend_selection_gpu_iff:
  assumes "TENSORS cc = Some ts"
  shows "use_gpu_of b ts = (CanUseGpu b \<and> (\<exists>t\<in>set ts. ready_on_gpu t))
    \<and> (\<exists>rest. snd (snd (Process b env cc calc)) =
           SelectBackend (if CanUseGpu b \<and> (\<exists>t\<in>set ts. ready_on_gpu t) then GPU else CPU)
             # rest
         \<and> (\<forall>e\<in>set rest. event_backend e = None \<or> event_backend e =
              Some (if CanUseGpu b \<and> (\<exists>t\<in>set ts. ready_on_gpu t) then GPU else CPU)))"
proof -
  let ?sel = "if CanUseGpu b \<and> (\<exists>t\<in>set ts. ready_on_gpu t) then GPU else CPU"
  obtain r calc' evs where p: "Process b env cc calc = (r, calc', evs)"
    by (cases "Process b env cc calc") auto
  have eq: "backend_of (use_gpu_of b ts) = ?sel"
    by (simp add: backend_of_def use_gpu_of_iff)
  from Process_events [OF assms p] obtain rest where
    "evs = SelectBackend ?sel # ValidateInput # rest"
    "\<forall>e\<in>set rest. event_backend e = None \<or> event_backend e = Some ?sel"
    unfolding eq by blast
  then have "snd (snd (Process b env cc calc)) = SelectBackend ?sel # (ValidateInput # rest)
    \<and> (\<forall>e\<in>set (ValidateInput # rest). event_backend e = None \<or> event_backend e = Some ?sel)"
    unfolding p by simp
  then have "\<exists>rest. snd (snd (Process b env cc calc)) = SelectBackend ?sel # rest
    \<and> (\<forall>e\<in>set rest. event_backend e = None \<or> event_backend e = Some ?sel)"
    by blast
  with use_gpu_of_iff [of b ts] show ?thesis by blast
qed

theorem backend_selection_gpu_iff_witness:
  "TENSORS (ex_cc (Some [ex_tensor kFloat32 [256, 256, 1] False,
                          ex_tensor kFloat32 [256, 256, 1] True]) NoTag)
     = Some [ex_tensor kFloat32 [256, 256, 1] False, ex_tensor kFloat32 [256, 256, 1] True]
   \<and> use_gpu_of ex_build [ex_tensor kFloat32 [256, 256, 1] False,
                           ex_tensor kFloat32 [256, 256, 1] True]
   \<and> hd (snd (snd (Process ex_build ex_env
        (ex_cc (Some [ex_tensor kFloat32 [256, 256, 1] False,
                      ex_tensor kFloat32 [256, 256, 1] True]) NoTag) ex_calc)))
       = SelectBackend GPU"
  using backend_selection_gpu_iff
    [where cc = "ex_cc (Some [ex_tensor kFloat32 [256, 256, 1] False,
                              ex_tensor kFloat32 [256, 256, 1] True]) NoTag"
       and ts = "[ex_tensor kFloat32 [256, 256, 1] False, ex_tensor kFloat32 [256, 256, 1] True]"
       and b = ex_build and env = ex_env and calc = ex_calc]
  by (simp add: ex_defs model_defs)

text \<open>
  Claim C4. Dimension extraction returns (H, W, C) exactly for the shapes [H, W, C] and
  [1, H, W, C]; a shape of rank 4 whose first dimension is not 1 is rejected with
  InvalidArgument, and so is a shape of any rank other than 3 and 4.
\<close>

theorem GetHwcFromDims_rank_rule:
  "(GetHwcFromDims ds = Inr (h, w, c) \<longleftrightarrow> ds = [h, w, c] \<or> ds = [1, h, w, c])
   \<and> (length dsa = 4 \<and> hd dsa \<noteq> 1 \<longrightarrow>
        (\<exists>msg. GetHwcFromDims dsa = Inl (Error kInvalidArgument msg)))
   \<and> (length dsb \<noteq> 3 \<and> length dsb \<noteq> 4 \<longrightarrow>
        (\<exists>msg. GetHwcFromDims dsb = Inl (Error kInvalidArgument msg)))"
proof (intro conjI)
  show "GetHwcFromDims ds = Inr (h, w, c) \<longleftrightarrow> ds = [h, w, c] \<or> ds = [1, h, w, c]"
    by (cases ds rule: GetHwcFromDims.cases) auto
  show "length dsa = 4 \<and> hd dsa \<noteq> 1 \<longrightarrow>
        (\<exists>msg. GetHwcFromDims dsa = Inl (Error kInvalidArgument msg))"
    by (cases dsa rule: GetHwcFromDims.cases) auto
  show "length dsb \<noteq> 3 \<and> length dsb \<noteq> 4 \<longrightarrow>
        (\<exists>msg. GetHwcFromDims dsb = Inl (Error kInvalidArgument msg))"
    by (cases dsb rule: GetHwcFromDims.cases) auto
qed

theorem GetHwcFromDims_rank_rule_witness:
  "GetHwcFromDims [1, 128, 96, 2] = Inr (128, 96, 2)
   \<and> GetHwcFromDims [128, 96, 2] = Inr (128, 96, 2)
   \<and> (length [2, 128, 96, 2 :: int] = 4 \<and> hd [2, 128, 96, 2 :: int] \<noteq> 1)
   \<and> GetHwcFromDims [2, 128, 96, 2] = Inl (Error kInvalidArgument ''unsupported batch size'')
   \<and> (length [128, 96 :: int] \<noteq> 3 \<and> length [128, 96 :: int] \<noteq> 4)
   \<and> GetHwcFromDims [128, 96] = Inl (Error kInvalidArgument ''unsupported tensor rank'')"
  using GetHwcFromDims_rank_rule
    [where ds = "[1, 128, 96, 2]" and h = 128 and w = 96 and c = 2
       and dsa = "[2, 128, 96, 2]" and dsb = "[128, 96]"]
  by simp

text \<open>
  Claim C6. When no tensor batch is present the call returns success at once: no
  selection, no validation, no factory or \<^verbatim>\<open>Convert\<close> call, no mask, and the object is
  unchanged.
\<close>

theorem absent_batch_is_noop:
  "TENSORS cc = None \<Longrightarrow> Process b env cc calc = (Returns OkStatus, calc, [])"
  by (simp add: Process_def)

theorem absent_batch_is_noop_witness:
  "TENSORS (ex_cc None (Tag (Some (64, 48)))) = None
   \<and> Process ex_build_no_gpu ex_env_failing (ex_cc None (Tag (Some (64, 48)))) ex_calc
       = (Returns OkStatus, ex_calc, [])"
  using absent_batch_is_noop
    [where cc = "ex_cc None (Tag (Some (64, 48)))" and b = ex_build_no_gpu
       and env = ex_env_failing and calc = ex_calc]
  by (simp add: ex_cc_def)

section \<open>Validation\<close>

lemma check_channels_fail:
  "c \<noteq> spec_required_channels act \<Longrightarrow>
   check_channels act c = Failed (Error kInvalidArgument ''channel count mismatch'')"
  by (cases act) (auto simp: check_channels_def spec_required_channels_def RET_CHECK_failure_def)

lemma ValidateTensors_ok:
  "ValidateTensors opts ts = OkStatus \<Longrightarrow>
   \<exists>first rest h w c. ts = first # rest \<and> GetHwcFromDims (dims first) = Inr (h, w, c)"
  by (auto simp: ValidateTensors_def split: list.splits if_splits sum.splits)

lemma Process_validation_failure:
  "TENSORS cc = Some ts \<Longrightarrow> ValidateTensors (options_m calc) ts = Failed e \<Longrightarrow>
   Process b env cc calc =
     (Returns (Failed e), calc, [SelectBackend (backend_of (use_gpu_of b ts)), ValidateInput])"
  by (simp add: Process_def Let_def)

lemma ValidateTensors_rejects:
  assumes "ts = [] \<or> element_type (hd ts) \<noteq> kFloat32 \<or>
     (\<exists>h w c. GetHwcFromDims (dims (hd ts)) = Inr (h, w, c) \<and>
              c \<noteq> spec_required_channels (activation opts))"
  shows "\<exists>msg. ValidateTensors opts ts = Failed (Error kInvalidArgument msg)"
proof (cases ts)
  case Nil
  then show ?thesis by (simp add: ValidateTensors_def RET_CHECK_failure_def)
next
  case (Cons first rest)
  show ?thesis
  proof (cases "element_type first = kFloat32")
    case False
    with Cons show ?thesis by (simp add: ValidateTensors_def RET_CHECK_failure_def)
  next
    case True
    with Cons assms obtain h w c where
      "GetHwcFromDims (dims first) = Inr (h, w, c)"
      "c \<noteq> spec_required_channels (activation opts)"
      by auto
    with Cons True show ?thesis
      by (simp add: ValidateTensors_def check_channels_fail)
  qed
qed

lemma count_simps [simp]:
  "count_constructs bk [] = 0"
  "count_constructs bk (Construct bk' # evs) =
     (if bk' = bk then Suc (count_constructs bk evs) else count_constructs bk evs)"
  "count_constructs bk (SelectBackend bk' # evs) = count_constructs bk evs"
  "count_constructs bk (ValidateInput # evs) = count_constructs bk evs"
  "count_constructs bk (ConvertCall bk' conv ts w h # evs) = count_constructs bk evs"
  "count_constructs bk (AddMask img t # evs) = count_constructs bk evs"
  "count_constructs bk (evs @ evs') = count_constructs bk evs + count_constructs bk evs'"
  "count_converts bk [] = 0"
  "count_converts bk (Construct bk' # evs) = count_converts bk evs"
  "count_converts bk (SelectBackend bk' # evs) = count_converts bk evs"
  "count_converts bk (ValidateInput # evs) = count_converts bk evs"
  "count_converts bk (ConvertCall bk' conv ts w h # evs) =
     (if bk' = bk then Suc (count_converts bk evs) else count_converts bk evs)"
  "count_converts bk (AddMask img t # evs) = count_converts bk evs"
  "count_converts bk (evs @ evs') = count_converts bk evs + count_converts bk evs'"
  by (auto simp: count_constructs_def count_converts_def)

text \<open>
  Claim C2. With a batch present, the call fails with InvalidArgument when the batch is
  empty, when the first tensor is not of 32-bit float, or when its channel count is not
  the one the activation asks for (1 for NONE and SIGMOID, 2 for SOFTMAX); then the
  object is unchanged and no factory was called, nor any other backend work done.
\<close>

theorem validation_rejects_before_construction:
  assumes "TENSORS cc = Some ts"
    and "ts = [] \<or> element_type (hd ts) \<noteq> kFloat32 \<or>
         (\<exists>h w c. GetHwcFromDims (dims (hd ts)) = Inr (h, w, c) \<and>
                  c \<noteq> spec_required_channels (activation (options_m calc)))"
  shows "\<exists>msg evs.
           Process b env cc calc = (Returns (Failed (Error kInvalidArgument msg)), calc, evs)
           \<and> count_constructs GPU evs = 0 \<and> count_constructs CPU evs = 0
           \<and> (\<forall>e\<in>set evs. \<not> is_backend_work e)"
proof -
  from ValidateTensors_rejects [OF assms(2)] obtain msg where
    "ValidateTensors (options_m calc) ts = Failed (Error kInvalidArgument msg)" by blast
  from Process_validation_failure [OF assms(1) this] show ?thesis by simp
qed

theorem validation_rejects_before_construction_witness:
  "TENSORS (ex_cc (Some [ex_tensor kFloat32 [256, 256, 2] False]) NoTag)
     = Some [ex_tensor kFloat32 [256, 256, 2] False]
   \<and> GetHwcFromDims (dims (hd [ex_tensor kFloat32 [256, 256, 2] False])) = Inr (256, 256, 2)
   \<and> 2 \<noteq> spec_required_channels (activation (options_m ex_calc))
   \<and> Process ex_build ex_env (ex_cc (Some [ex_tensor kFloat32 [256, 256, 2] False]) NoTag) ex_calc
       = (Returns (Failed (Error kInvalidArgument ''channel count mismatch'')), ex_calc,
          [SelectBackend CPU, ValidateInput])"
  using validation_rejects_before_construction
    [where cc = "ex_cc (Some [ex_tensor kFloat32 [256, 256, 2] False]) NoTag"
       and ts = "[ex_tensor kFloat32 [256, 256, 2] False]"
       and calc = ex_calc and b = ex_build and env = ex_env]
  by (simp add: ex_defs model_defs spec_required_channels_def)

lemma Init_work:
  "InitConverterIfNecessary b env g calc = (st, calc', evs) \<Longrightarrow>
   \<forall>e\<in>set evs. is_backend_work e"
  by (auto simp: InitConverterIfNecessary_def split: if_splits option.splits sum.splits)

lemma ConvertAndAdd_work:
  "ConvertAndAdd env bk c ts w h t = (r, evs) \<Longrightarrow> \<forall>e\<in>set evs. is_backend_work e"
  by (auto simp: ConvertAndAdd_def split: option.splits sum.splits)

lemma RunBackend_work:
  "RunBackend b env cc g ts w h calc = (r, calc', evs) \<Longrightarrow> \<forall>e\<in>set evs. is_backend_work e"
  unfolding RunBackend_def
  by (auto split: if_splits prod.splits Status.splits dest!: Init_work ConvertAndAdd_work)

lemma Process_steps:
  "TENSORS cc = Some ts \<Longrightarrow> Process b env cc calc = (r, calc', evs) \<Longrightarrow>
   \<exists>rest. evs = SelectBackend (backend_of (use_gpu_of b ts)) # ValidateInput # rest \<and>
     (\<forall>e\<in>set rest. is_backend_work e)"
  unfolding Process_def Let_def
  by (auto split: Status.splits sum.splits option.splits prod.splits dest!: RunBackend_work)

text \<open>
  Claim C7, as the code has it. The claim puts validation before backend selection; the
  code scans the residency first (lines 196 to 205) and validates after (lines 207 to
  226). The counterexample is a batch whose only tensor is ready on GPU and is not of
  32-bit float: GPU is selected, then the validation fails.
\<close>

theorem validation_first_counterexample:
  "Process ex_build ex_env (ex_cc (Some [ex_tensor kUInt8 [256, 256, 1] True]) NoTag) ex_calc
     = (Returns (Failed (Error kInvalidArgument ''unsupported element type'')), ex_calc,
        [SelectBackend GPU, ValidateInput])"
  by (simp add: ex_defs model_defs)

text \<open>
  Claim C7, amended. With a batch present the steps are: backend selection (from
  \<^verbatim>\<open>CanUseGpu()\<close> and the residency of the batch), then validation, then the work on the
  selected backend (factory, \<^verbatim>\<open>Convert\<close>, emission). When the validation fails the call
  returns its status after these two steps, with the object unchanged.
\<close>

theorem selection_validation_acquisition_order:
  assumes "TENSORS cc = Some ts"
  shows "\<exists>rest. snd (snd (Process b env cc calc)) =
             SelectBackend (backend_of (use_gpu_of b ts)) # ValidateInput # rest
           \<and> (\<forall>e\<in>set rest. is_backend_work e)
           \<and> (ValidateTensors (options_m calc) ts \<noteq> OkStatus \<longrightarrow>
                rest = [] \<and> fst (snd (Process b env cc calc)) = calc \<and>
                fst (Process b env cc calc) = Returns (ValidateTensors (options_m calc) ts))"
proof -
  obtain r calc' evs where p: "Process b env cc calc = (r, calc', evs)"
    by (cases "Process b env cc calc") auto
  from Process_steps [OF assms p] obtain rest where
    r: "evs = SelectBackend (backend_of (use_gpu_of b ts)) # ValidateInput # rest"
       "\<forall>e\<in>set rest. is_backend_work e" by blast
  have "ValidateTensors (options_m calc) ts \<noteq> OkStatus \<longrightarrow>
          rest = [] \<and> calc' = calc \<and> r = Returns (ValidateTensors (options_m calc) ts)"
  proof
    assume "ValidateTensors (options_m calc) ts \<noteq> OkStatus"
    then obtain e where e: "ValidateTensors (options_m calc) ts = Failed e"
      by (cases "ValidateTensors (options_m calc) ts") auto
    from Process_validation_failure [OF assms e, of b env] p r e
    show "rest = [] \<and> calc' = calc \<and> r = Returns (ValidateTensors (options_m calc) ts)"
      by simp
  qed
  with r show ?thesis unfolding p by simp
qed

theorem selection_validation_acquisition_order_witness:
  "TENSORS (ex_cc (Some [ex_tensor kFloat32 [256, 256, 2] True]) NoTag)
     = Some [ex_tensor kFloat32 [256, 256, 2] True]
   \<and> ValidateTensors (options_m ex_calc) [ex_tensor kFloat32 [256, 256, 2] True] \<noteq> OkStatus
   \<and> snd (snd (Process ex_build ex_env
        (ex_cc (Some [ex_tensor kFloat32 [256, 256, 2] True]) NoTag) ex_calc))
       = [SelectBackend GPU, ValidateInput]
   \<and> fst (snd (Process ex_build ex_env
        (ex_cc (Some [ex_tensor kFloat32 [256, 256, 2] True]) NoTag) ex_calc)) = ex_calc"
  using selection_validation_acquisition_order
    [where cc = "ex_cc (Some [ex_tensor kFloat32 [256, 256, 2] True]) NoTag"
       and ts = "[ex_tensor kFloat32 [256, 256, 2] True]"
       and calc = ex_calc and b = ex_build and env = ex_env]
  by (simp add: ex_defs model_defs)

section \<open>Opening\<close>

text \<open>
  Claim C10. \<^verbatim>\<open>Open\<close> succeeds for every options value: it sets the offset and copies the
  node's options into the object, and nothing in it can fail. An activation that does not
  fit the tensors is found only by a later \<^verbatim>\<open>Process\<close>, which then fails.
\<close>

theorem Open_always_succeeds:
  "Open cc calc = (OkStatus, calc\<lparr>options_m := NodeOptions cc\<rparr>, [SetOffset 0])
   \<and> (TENSORS cca = Some ts \<and> ValidateTensors (NodeOptions cc) ts = Failed e \<longrightarrow>
        Process b env cca (fst (snd (Open cc calc))) =
          (Returns (Failed e), fst (snd (Open cc calc)),
           [SelectBackend (backend_of (use_gpu_of b ts)), ValidateInput]))"
  by (simp add: Open_def LoadOptions_def Process_validation_failure)

theorem Open_always_succeeds_witness:
  "Open (ex_cc None NoTag) ex_calc
     = (OkStatus, ex_calc\<lparr>options_m := ex_options SOFTMAX\<rparr>, [SetOffset 0])
   \<and> TENSORS (ex_cc (Some [ex_tensor kFloat32 [256, 256, 1] False]) NoTag)
       = Some [ex_tensor kFloat32 [256, 256, 1] False]
   \<and> ValidateTensors (NodeOptions (ex_cc None NoTag)) [ex_tensor kFloat32 [256, 256, 1] False]
       = Failed (Error kInvalidArgument ''channel count mismatch'')
   \<and> fst (Process ex_build ex_env (ex_cc (Some [ex_tensor kFloat32 [256, 256, 1] False]) NoTag)
        (fst (snd (Open (ex_cc None NoTag) ex_calc))))
       = Returns (Failed (Error kInvalidArgument ''channel count mismatch''))"
  using Open_always_succeeds
    [where cc = "ex_cc None NoTag" and calc = ex_calc
       and cca = "ex_cc (Some [ex_tensor kFloat32 [256, 256, 1] False]) NoTag"
       and ts = "[ex_tensor kFloat32 [256, 256, 1] False]"
       and e = "Error kInvalidArgument ''channel count mismatch''"
       and b = ex_build and env = ex_env]
  by (simp add: ex_defs model_defs Open_def LoadOptions_def)

section \<open>Acquisition of the converter\<close>

lemma Init_uncached:
  "compiled b (backend_of g) \<Longrightarrow> converter_of (backend_of g) calc = None \<Longrightarrow>
   InitConverterIfNecessary b env g calc =
     (case Create env (backend_of g) (options_m calc) of
        Inl e \<Rightarrow> (Failed e, calc, [Construct (backend_of g)])
      | Inr c \<Rightarrow> (OkStatus, set_converter (backend_of g) (Some c) calc,
                  [Construct (backend_of g)]))"
  by (cases g)
     (auto simp: InitConverterIfNecessary_def compiled_def converter_of_def Create_def
       set_converter_def backend_of_def split: sum.splits)

lemma Init_cached:
  "compiled b (backend_of g) \<Longrightarrow> converter_of (backend_of g) calc = Some c \<Longrightarrow>
   InitConverterIfNecessary b env g calc = (OkStatus, calc, [])"
  by (cases g)
     (auto simp: InitConverterIfNecessary_def compiled_def converter_of_def backend_of_def)

lemma Init_not_compiled:
  "\<not> compiled b (backend_of g) \<Longrightarrow>
   \<exists>msg. InitConverterIfNecessary b env g calc =
     (Failed (Error kFailedPrecondition msg), calc, [])"
  by (cases g)
     (auto simp: InitConverterIfNecessary_def compiled_def backend_of_def RET_CHECK_FAIL_def)

lemma RunBackend_not_compiled:
  "\<not> compiled b (backend_of g) \<Longrightarrow>
   \<exists>msg. RunBackend b env cc g ts w h calc =
     (Returns (Failed (Error kFailedPrecondition msg)), calc, [])"
  by (cases g) (auto simp: RunBackend_def compiled_def backend_of_def RET_CHECK_FAIL_def)

lemma RunBackend_compiled:
  "compiled b (backend_of g) \<Longrightarrow>
   RunBackend b env cc g ts w h calc =
     (case InitConverterIfNecessary b env g calc of
        (Failed e, calc', evs) \<Rightarrow> (Returns (Failed e), calc', evs)
      | (OkStatus, calc', evs) \<Rightarrow>
          (case ConvertAndAdd env (backend_of g) (converter_of (backend_of g) calc') ts w h
                  (InputTimestamp cc) of
             (r, evs') \<Rightarrow> (r, calc', evs @ evs')))"
  by (cases g)
     (auto simp: RunBackend_def compiled_def backend_of_def converter_of_def
       split: prod.splits Status.splits)

lemma Process_reaches:
  assumes "reaches_backend b (options_m calc) bk cc"
  shows "\<exists>ts g w h. TENSORS cc = Some ts \<and> backend_of g = bk \<and> g = use_gpu_of b ts \<and>
     Process b env cc calc =
       (case RunBackend b env cc g ts w h calc of
          (r, calc', evs) \<Rightarrow> (r, calc', [SelectBackend bk, ValidateInput] @ evs))"
proof -
  from assms obtain ts where ts: "TENSORS cc = Some ts" "backend_of (use_gpu_of b ts) = bk"
    "ValidateTensors (options_m calc) ts = OkStatus" "OUTPUT_SIZE cc \<noteq> Tag None"
    by (auto simp: reaches_backend_def split: option.splits)
  from ValidateTensors_ok [OF ts(3)] obtain first rest h w c where
    f: "ts = first # rest" "GetHwcFromDims (dims first) = Inr (h, w, c)" by blast
  from ts(4) obtain ow oh where os: "output_size_of (OUTPUT_SIZE cc) w h = Some (ow, oh)"
    by (cases "OUTPUT_SIZE cc") (auto simp: output_size_of_def split: option.splits)
  have "Process b env cc calc =
       (case RunBackend b env cc (use_gpu_of b ts) ts ow oh calc of
          (r, calc', evs) \<Rightarrow> (r, calc', [SelectBackend bk, ValidateInput] @ evs))"
    using ts f os by (simp add: Process_def Let_def)
  with ts show ?thesis by blast
qed

lemma Process_not_compiled:
  assumes "TENSORS cc = Some ts" and "\<not> compiled b (backend_of (use_gpu_of b ts))"
  shows "fst (snd (Process b env cc calc)) = calc
    \<and> snd (snd (Process b env cc calc)) =
        [SelectBackend (backend_of (use_gpu_of b ts)), ValidateInput]
    \<and> fst (Process b env cc calc) \<noteq> Returns OkStatus"
proof -
  have "\<And>w h. \<exists>msg. RunBackend b env cc (use_gpu_of b ts) ts w h calc =
     (Returns (Failed (Error kFailedPrecondition msg)), calc, [])"
    using assms(2) by (rule RunBackend_not_compiled)
  then have "\<And>w h. \<exists>e. RunBackend b env cc (use_gpu_of b ts) ts w h calc =
     (Returns (Failed e), calc, [])" by blast
  then obtain f where
    f: "\<And>w h. RunBackend b env cc (use_gpu_of b ts) ts w h calc = (Returns (Failed (f w h)), calc, [])"
    by metis
  show ?thesis
    using assms(1)
    by (auto simp: Process_def Let_def f split: Status.splits sum.splits option.splits)
qed

text \<open>
  Claim C8. When the branches of the selected backend are compiled out, acquisition fails
  at once with FailedPrecondition and calls no factory: so does
  \<^verbatim>\<open>InitConverterIfNecessary\<close>, and so does a call of \<^verbatim>\<open>Process\<close> that has passed
  validation; and whatever the batch, a call that selects such a backend ends without
  success after selection and validation, with the object unchanged.
\<close>

theorem uncompiled_backend_fails:
  assumes "\<not> compiled b (backend_of g)"
  shows "(\<exists>msg. InitConverterIfNecessary b env g calc =
            (Failed (Error kFailedPrecondition msg), calc, []))
         \<and> (reaches_backend b (options_m calc) (backend_of g) cc \<longrightarrow>
             (\<exists>msg. Process b env cc calc =
                (Returns (Failed (Error kFailedPrecondition msg)), calc,
                 [SelectBackend (backend_of g), ValidateInput])))
         \<and> (TENSORS cca = Some ts \<and> use_gpu_of b ts = g \<longrightarrow>
             fst (snd (Process b env cca calc)) = calc \<and>
             snd (snd (Process b env cca calc)) = [SelectBackend (backend_of g), ValidateInput] \<and>
             fst (Process b env cca calc) \<noteq> Returns OkStatus)"
proof (intro conjI impI)
  show "\<exists>msg. InitConverterIfNecessary b env g calc =
            (Failed (Error kFailedPrecondition msg), calc, [])"
    using assms by (rule Init_not_compiled)
next
  assume "reaches_backend b (options_m calc) (backend_of g) cc"
  from Process_reaches [OF this, of env] obtain ts g' w h where
    g: "backend_of g' = backend_of g" and
    p: "Process b env cc calc =
       (case RunBackend b env cc g' ts w h calc of
          (r, calc', evs) \<Rightarrow> (r, calc', [SelectBackend (backend_of g), ValidateInput] @ evs))"
    by blast
  from assms g have "\<not> compiled b (backend_of g')" by simp
  from RunBackend_not_compiled [OF this, of env cc ts w h calc] p
  show "\<exists>msg. Process b env cc calc =
                (Returns (Failed (Error kFailedPrecondition msg)), calc,
                 [SelectBackend (backend_of g), ValidateInput])" by auto
next
  assume a: "TENSORS cca = Some ts \<and> use_gpu_of b ts = g"
  with assms have n: "\<not> compiled b (backend_of (use_gpu_of b ts))" by simp
  from a have t: "TENSORS cca = Some ts" by simp
  from Process_not_compiled [OF t n, of env calc] a
  show "fst (snd (Process b env cca calc)) = calc"
    and "snd (snd (Process b env cca calc)) = [SelectBackend (backend_of g), ValidateInput]"
    and "fst (Process b env cca calc) \<noteq> Returns OkStatus" by simp_all
qed

theorem uncompiled_backend_fails_witness:
  "\<not> compiled ex_build_no_gpu (backend_of True)
   \<and> InitConverterIfNecessary ex_build_no_gpu ex_env True ex_calc
       = (Failed (Error kFailedPrecondition
            ''Cannot initialize GPU converter because GPU processing is disabled.''),
          ex_calc, [])
   \<and> reaches_backend ex_build_no_gpu (options_m ex_calc) (backend_of True)
        (ex_cc (Some [ex_tensor kFloat32 [256, 256, 1] True]) NoTag)
   \<and> Process ex_build_no_gpu ex_env
        (ex_cc (Some [ex_tensor kFloat32 [256, 256, 1] True]) NoTag) ex_calc
       = (Returns (Failed (Error kFailedPrecondition ''GPU processing disabled.'')), ex_calc,
          [SelectBackend GPU, ValidateInput])
   \<and> TENSORS (ex_cc (Some [ex_tensor kFloat32 [256, 256, 1] True]) NoTag)
       = Some [ex_tensor kFloat32 [256, 256, 1] True]
   \<and> use_gpu_of ex_build_no_gpu [ex_tensor kFloat32 [256, 256, 1] True] = True"
  using uncompiled_backend_fails
    [where b = ex_build_no_gpu and g = True and env = ex_env and calc = ex_calc
       and cc = "ex_cc (Some [ex_tensor kFloat32 [256, 256, 1] True]) NoTag"
       and cca = "ex_cc (Some [ex_tensor kFloat32 [256, 256, 1] True]) NoTag"
       and ts = "[ex_tensor kFloat32 [256, 256, 1] True]"]
  by (simp add: ex_defs model_defs compiled_def reaches_backend_def)

section \<open>One construction per backend\<close>

lemma ConvertAndAdd_Some:
  "\<exists>st evs. ConvertAndAdd env bk (Some conv) ts w h t = (Returns st, evs) \<and>
     count_constructs bk' evs = 0 \<and> count_converts bk evs = 1"
  by (auto simp: ConvertAndAdd_def split: sum.splits)

lemma converter_of_set_same: "converter_of bk (set_converter bk x calc) = x"
  by (cases bk) (simp_all add: converter_of_def set_converter_def)

lemma converter_of_set_other:
  "other \<noteq> bk \<Longrightarrow> converter_of bk (set_converter other x calc) = converter_of bk calc"
  by (cases bk; cases other) (auto simp: converter_of_def set_converter_def)

lemma options_set_converter: "options_m (set_converter bk x calc) = options_m calc"
  by (cases bk) (simp_all add: set_converter_def)

lemma set_converter_same: "set_converter bk (converter_of bk calc) calc = calc"
  by (cases bk) (simp_all add: set_converter_def converter_of_def)

lemma Process_step_cached:
  assumes "compiled b bk" and "converter_of bk calc = Some c"
    and "reaches_backend b (options_m calc) bk cc"
  shows "\<exists>st evs. Process b env cc calc = (Returns st, calc, evs) \<and>
           count_constructs bk evs = 0 \<and> count_converts bk evs = 1"
proof -
  from Process_reaches [OF assms(3), of env] obtain ts g w h where
    g: "backend_of g = bk" and
    p: "Process b env cc calc =
       (case RunBackend b env cc g ts w h calc of
          (r, calc', evs) \<Rightarrow> (r, calc', [SelectBackend bk, ValidateInput] @ evs))"
    by blast
  from ConvertAndAdd_Some [of env bk c ts w h "InputTimestamp cc" bk] obtain st evs where
    c: "ConvertAndAdd env bk (Some c) ts w h (InputTimestamp cc) = (Returns st, evs)"
       "count_constructs bk evs = 0" "count_converts bk evs = 1" by blast
  have "RunBackend b env cc g ts w h calc = (Returns st, calc, evs)"
    using assms(1,2) c(1) g by (simp add: RunBackend_compiled Init_cached)
  with p c show ?thesis by simp
qed

lemma Process_step_uncached_ok:
  assumes "compiled b bk" and "converter_of bk calc = None"
    and "reaches_backend b (options_m calc) bk cc"
    and "Create env bk (options_m calc) = Inr c"
  shows "\<exists>st calc' evs. Process b env cc calc = (Returns st, calc', evs) \<and>
           converter_of bk calc' = Some c \<and> options_m calc' = options_m calc \<and>
           count_constructs bk evs = 1 \<and> count_converts bk evs = 1"
proof -
  from Process_reaches [OF assms(3), of env] obtain ts g w h where
    g: "backend_of g = bk" and
    p: "Process b env cc calc =
       (case RunBackend b env cc g ts w h calc of
          (r, calc', evs) \<Rightarrow> (r, calc', [SelectBackend bk, ValidateInput] @ evs))"
    by blast
  let ?calc' = "set_converter bk (Some c) calc"
  from ConvertAndAdd_Some [of env bk c ts w h "InputTimestamp cc" bk] obtain st evs where
    c: "ConvertAndAdd env bk (Some c) ts w h (InputTimestamp cc) = (Returns st, evs)"
       "count_constructs bk evs = 0" "count_converts bk evs = 1" by blast
  have i: "InitConverterIfNecessary b env g calc = (OkStatus, ?calc', [Construct bk])"
    using assms(1,2,4) g by (simp add: Init_uncached)
  have "RunBackend b env cc g ts w h calc = (Returns st, ?calc', [Construct bk] @ evs)"
    using assms(1) g i c(1) by (simp add: RunBackend_compiled converter_of_set_same)
  with p c show ?thesis by (simp add: converter_of_set_same options_set_converter)
qed

lemma Process_step_uncached_fail:
  assumes "compiled b bk" and "converter_of bk calc = None"
    and "reaches_backend b (options_m calc) bk cc"
    and "Create env bk (options_m calc) = Inl e"
  shows "Process b env cc calc =
           (Returns (Failed e), calc, [SelectBackend bk, ValidateInput, Construct bk])"
proof -
  from Process_reaches [OF assms(3), of env] obtain ts g w h where
    g: "backend_of g = bk" and
    p: "Process b env cc calc =
       (case RunBackend b env cc g ts w h calc of
          (r, calc', evs) \<Rightarrow> (r, calc', [SelectBackend bk, ValidateInput] @ evs))"
    by blast
  have i: "InitConverterIfNecessary b env g calc = (Failed e, calc, [Construct bk])"
    using assms(1,2,4) g by (simp add: Init_uncached)
  have "RunBackend b env cc g ts w h calc = (Returns (Failed e), calc, [Construct bk])"
    using assms(1) g i by (simp add: RunBackend_compiled)
  with p show ?thesis by simp
qed

lemma Process_step_uncached_any:
  assumes "compiled b bk" and "converter_of bk calc = None"
    and "reaches_backend b (options_m calc) bk cc"
  shows "\<exists>st calc' evs. Process b env cc calc = (Returns st, calc', evs) \<and>
           count_constructs bk evs = 1"
proof (cases "Create env bk (options_m calc)")
  case (Inl e)
  from Process_step_uncached_fail [OF assms Inl] show ?thesis by simp
next
  case (Inr c)
  from Process_step_uncached_ok [OF assms Inr] show ?thesis by blast
qed

lemma Init_keeps_cached:
  "converter_of bk calc = Some c \<Longrightarrow> InitConverterIfNecessary b env g calc = (st, calc', evs) \<Longrightarrow>
   converter_of bk calc' = Some c \<and> count_constructs bk evs = 0"
  by (cases bk; cases g)
     (auto simp: InitConverterIfNecessary_def converter_of_def
       split: if_splits option.splits sum.splits)

lemma ConvertAndAdd_no_construct:
  "ConvertAndAdd env bk' conv ts w h t = (r, evs) \<Longrightarrow> count_constructs bk evs = 0"
  by (auto simp: ConvertAndAdd_def split: option.splits sum.splits)

lemma RunBackend_keeps_cached:
  "converter_of bk calc = Some c \<Longrightarrow> RunBackend b env cc g ts w h calc = (r, calc', evs) \<Longrightarrow>
   converter_of bk calc' = Some c \<and> count_constructs bk evs = 0"
  unfolding RunBackend_def
  by (auto split: if_splits prod.splits Status.splits
      dest: Init_keeps_cached ConvertAndAdd_no_construct)

lemma Process_keeps_cached:
  "converter_of bk calc = Some c \<Longrightarrow> Process b env cc calc = (r, calc', evs) \<Longrightarrow>
   converter_of bk calc' = Some c \<and> count_constructs bk evs = 0"
  unfolding Process_def Let_def
  by (auto split: option.splits Status.splits sum.splits prod.splits
      dest: RunBackend_keeps_cached)

lemma Run_keeps_cached:
  "converter_of bk calc = Some c \<Longrightarrow>
   converter_of bk (fst (Run b calc invs)) = Some c \<and>
   count_constructs bk (snd (Run b calc invs)) = 0"
proof (induction invs arbitrary: calc)
  case Nil
  then show ?case by simp
next
  case (Cons inv invs)
  obtain env cc where inv: "inv = (env, cc)" by (cases inv)
  obtain r calc' evs where p: "Process b env cc calc = (r, calc', evs)"
    by (cases "Process b env cc calc") auto
  from Process_keeps_cached [OF Cons.prems p]
  have k: "converter_of bk calc' = Some c" "count_constructs bk evs = 0" by simp_all
  show ?case
  proof (cases r)
    case Aborts
    with p k inv show ?thesis by simp
  next
    case (Returns st)
    with p k inv Cons.IH [OF k(1)] show ?thesis
      by (auto split: prod.splits)
  qed
qed

lemma Run_cached_counts:
  assumes "compiled b bk"
  shows "converter_of bk calc = Some c \<Longrightarrow>
   \<forall>(env, cc)\<in>set invs. reaches_backend b (options_m calc) bk cc \<Longrightarrow>
   count_constructs bk (snd (Run b calc invs)) = 0 \<and>
   count_converts bk (snd (Run b calc invs)) = length invs"
proof (induction invs)
  case Nil
  then show ?case by simp
next
  case (Cons inv invs)
  obtain env cc where inv: "inv = (env, cc)" by (cases inv)
  from Cons.prems inv have r: "reaches_backend b (options_m calc) bk cc" by simp
  from Process_step_cached [OF assms Cons.prems(1) r, of env] obtain st evs where
    p: "Process b env cc calc = (Returns st, calc, evs)"
       "count_constructs bk evs = 0" "count_converts bk evs = 1" by blast
  from Cons.IH Cons.prems have
    "count_constructs bk (snd (Run b calc invs)) = 0 \<and>
     count_converts bk (snd (Run b calc invs)) = length invs" by simp
  with p inv show ?case by (auto split: prod.splits)
qed

text \<open>
  Claim C3. On an object whose cache for a compiled backend is empty, N \<ge> 1 calls that
  all reach that backend, the first of which finds the factory succeeding, make exactly
  one factory call and N calls of \<^verbatim>\<open>Convert\<close>. Once a converter is cached, no run of calls
  whatever constructs that backend again or replaces the cached converter. When the
  factory fails, the call fails with the factory's status and caches nothing, and the
  next call that reaches the backend calls the factory again.
\<close>

theorem converter_constructed_once:
  "(compiled b bk \<and> converter_of bk calc = None \<and> invs \<noteq> [] \<and>
    (\<forall>(env, cc)\<in>set invs. reaches_backend b (options_m calc) bk cc) \<and>
    (\<exists>c. Create (fst (hd invs)) bk (options_m calc) = Inr c)
    \<longrightarrow> count_constructs bk (snd (Run b calc invs)) = 1 \<and>
        count_converts bk (snd (Run b calc invs)) = length invs)
   \<and> (converter_of bk calcb = Some cb
    \<longrightarrow> converter_of bk (fst (Run b calcb invsb)) = Some cb \<and>
        count_constructs bk (snd (Run b calcb invsb)) = 0)
   \<and> (compiled b bk \<and> converter_of bk calc = None \<and>
      reaches_backend b (options_m calc) bk cca \<and> Create enva bk (options_m calc) = Inl e \<and>
      reaches_backend b (options_m calc) bk ccb
    \<longrightarrow> Process b enva cca calc =
          (Returns (Failed e), calc, [SelectBackend bk, ValidateInput, Construct bk]) \<and>
        count_constructs bk (snd (Run b calc [(enva, cca), (envb, ccb)])) = 2)"
proof (intro conjI impI)
  assume a: "compiled b bk \<and> converter_of bk calc = None \<and> invs \<noteq> [] \<and>
    (\<forall>(env, cc)\<in>set invs. reaches_backend b (options_m calc) bk cc) \<and>
    (\<exists>c. Create (fst (hd invs)) bk (options_m calc) = Inr c)"
  then obtain env cc rest c where
    i: "invs = (env, cc) # rest" and cr: "Create env bk (options_m calc) = Inr c"
    by (cases invs) auto
  from a i have r: "reaches_backend b (options_m calc) bk cc"
    and rs: "\<forall>(env, cc)\<in>set rest. reaches_backend b (options_m calc) bk cc" by auto
  from a have cb: "compiled b bk" and n: "converter_of bk calc = None" by auto
  from Process_step_uncached_ok [OF cb n r cr] obtain st calc' evs where
    p: "Process b env cc calc = (Returns st, calc', evs)" "converter_of bk calc' = Some c"
       "options_m calc' = options_m calc" "count_constructs bk evs = 1"
       "count_converts bk evs = 1" by blast
  from rs p(3) have "\<forall>(env, cc)\<in>set rest. reaches_backend b (options_m calc') bk cc" by simp
  from Run_cached_counts [OF cb p(2) this]
  have "count_constructs bk (snd (Run b calc' rest)) = 0"
       "count_converts bk (snd (Run b calc' rest)) = length rest" by simp_all
  with p i show "count_constructs bk (snd (Run b calc invs)) = 1"
    and "count_converts bk (snd (Run b calc invs)) = length invs"
    by (auto split: prod.splits)
next
  assume "converter_of bk calcb = Some cb"
  from Run_keeps_cached [OF this]
  show "converter_of bk (fst (Run b calcb invsb)) = Some cb"
    and "count_constructs bk (snd (Run b calcb invsb)) = 0" by simp_all
next
  assume a: "compiled b bk \<and> converter_of bk calc = None \<and>
      reaches_backend b (options_m calc) bk cca \<and> Create enva bk (options_m calc) = Inl e \<and>
      reaches_backend b (options_m calc) bk ccb"
  then have cb: "compiled b bk" and n: "converter_of bk calc = None"
    and ra: "reaches_backend b (options_m calc) bk cca"
    and cr: "Create enva bk (options_m calc) = Inl e"
    and rb: "reaches_backend b (options_m calc) bk ccb" by simp_all
  from Process_step_uncached_fail [OF cb n ra cr]
  show pa: "Process b enva cca calc =
          (Returns (Failed e), calc, [SelectBackend bk, ValidateInput, Construct bk])" .
  from Process_step_uncached_any [OF cb n rb, of envb] obtain st calc' evs where
    pb: "Process b envb ccb calc = (Returns st, calc', evs)" "count_constructs bk evs = 1"
    by blast
  from pa pb show "count_constructs bk (snd (Run b calc [(enva, cca), (envb, ccb)])) = 2"
    by simp
qed

theorem converter_constructed_once_witness:
  "(compiled ex_build CPU \<and> converter_of CPU ex_calc = None \<and>
    [ex_call, ex_call, ex_call] \<noteq> [] \<and>
    reaches_backend ex_build (options_m ex_calc) CPU (snd ex_call) \<and>
    Create (fst (hd [ex_call, ex_call, ex_call])) CPU (options_m ex_calc)
      = Inr (ConverterHandle 2))
   \<and> count_constructs CPU (snd (Run ex_build ex_calc [ex_call, ex_call, ex_call])) = 1
   \<and> count_converts CPU (snd (Run ex_build ex_calc [ex_call, ex_call, ex_call])) = 3
   \<and> converter_of CPU (set_converter CPU (Some (ConverterHandle 4)) ex_calc)
       = Some (ConverterHandle 4)
   \<and> count_constructs CPU
       (snd (Run ex_build (set_converter CPU (Some (ConverterHandle 4)) ex_calc)
          [ex_call_failing, ex_call])) = 0
   \<and> (reaches_backend ex_build (options_m ex_calc) CPU (snd ex_call_failing) \<and>
      Create (fst ex_call_failing) CPU (options_m ex_calc)
        = Inl (Error kUnavailable ''backend construction failed'') \<and>
      reaches_backend ex_build (options_m ex_calc) CPU (snd ex_call))
   \<and> count_constructs CPU (snd (Run ex_build ex_calc [ex_call_failing, ex_call])) = 2"
  using converter_constructed_once
    [where b = ex_build and bk = CPU and calc = ex_calc and invs = "[ex_call, ex_call, ex_call]"
       and calcb = "set_converter CPU (Some (ConverterHandle 4)) ex_calc"
       and cb = "ConverterHandle 4" and invsb = "[ex_call_failing, ex_call]"
       and enva = "fst ex_call_failing" and cca = "snd ex_call_failing"
       and e = "Error kUnavailable ''backend construction failed''"
       and envb = "fst ex_call" and ccb = "snd ex_call"]
  by (simp add: ex_defs model_defs compiled_def converter_of_def
      set_converter_def Create_def reaches_backend_def)

section \<open>The output size\<close>







section \<open>The converter that is not selected\<close>

lemma Init_frame:
  "other \<noteq> backend_of g \<Longrightarrow>
   InitConverterIfNecessary b env g (set_converter other x calc) =
     (case InitConverterIfNecessary b env g calc of
        (st, calc', evs) \<Rightarrow> (st, set_converter other x calc', evs))"
  by (cases g; cases other)
     (auto simp: InitConverterIfNecessary_def set_converter_def backend_of_def
       split: option.splits sum.splits)

lemma Init_only_selected:
  "InitConverterIfNecessary b env g calc = (st, calc', evs) \<Longrightarrow>
   calc' = set_converter (backend_of g) (converter_of (backend_of g) calc') calc"
  by (cases g)
     (auto simp: InitConverterIfNecessary_def set_converter_def backend_of_def converter_of_def
       split: if_splits option.splits sum.splits)

lemma RunBackend_frame:
  assumes "other \<noteq> backend_of g"
  shows "RunBackend b env cc g ts w h (set_converter other x calc) =
     (case RunBackend b env cc g ts w h calc of
        (r, calc', evs) \<Rightarrow> (r, set_converter other x calc', evs))"
proof (cases "compiled b (backend_of g)")
  case True
  obtain st calca evsa where i: "InitConverterIfNecessary b env g calc = (st, calca, evsa)"
    by (cases "InitConverterIfNecessary b env g calc") auto
  with Init_frame [OF assms, of b env x calc]
  have i': "InitConverterIfNecessary b env g (set_converter other x calc) =
              (st, set_converter other x calca, evsa)" by simp
  show ?thesis
    using True i i' converter_of_set_other [OF assms, of x calca]
    by (cases st) (simp_all add: RunBackend_compiled split: prod.splits)
next
  case False
  then show ?thesis
    by (cases g) (auto simp: RunBackend_def compiled_def backend_of_def)
qed

lemma RunBackend_only_selected:
  "RunBackend b env cc g ts w h calc = (r, calc', evs) \<Longrightarrow>
   calc' = set_converter (backend_of g) (converter_of (backend_of g) calc') calc"
  unfolding RunBackend_def
  by (cases g)
     (auto simp: set_converter_def backend_of_def converter_of_def
       split: if_splits prod.splits Status.splits dest!: Init_only_selected)

lemma Process_frame:
  assumes "TENSORS cc = Some ts" and "other \<noteq> backend_of (use_gpu_of b ts)"
  shows "Process b env cc (set_converter other x calc) =
     (case Process b env cc calc of (r, calc', evs) \<Rightarrow> (r, set_converter other x calc', evs))"
  using assms
  by (auto simp: Process_def Let_def RunBackend_frame options_set_converter
      split: Status.splits sum.splits option.splits prod.splits)

lemma Process_only_selected:
  assumes "TENSORS cc = Some ts" and "Process b env cc calc = (r, calc', evs)"
  shows "calc' = set_converter (backend_of (use_gpu_of b ts))
                   (converter_of (backend_of (use_gpu_of b ts)) calc') calc"
  using assms
  by (auto simp: Process_def Let_def set_converter_same
      split: Status.splits sum.splits option.splits prod.splits
      dest: RunBackend_only_selected)

text \<open>
  Claim C9. A call on a batch changes at most the cache member of the selected backend:
  the object after the call is the object before with that member replaced. The member of
  the other backend keeps its value, no event of the call belongs to the other backend (no
  factory call, no \<^verbatim>\<open>Convert\<close> call), and the call does not read it: with any other value
  in that member the call returns the same result, makes the same calls and leaves that
  value in place. This holds for CPU selected and GPU cached, and the other way round.
\<close>

theorem unselected_converter_untouched:
  assumes "TENSORS cc = Some ts" and "other \<noteq> backend_of (use_gpu_of b ts)"
    and "Process b env cc calc = (r, calc', evs)"
  shows "calc' = set_converter (backend_of (use_gpu_of b ts))
                   (converter_of (backend_of (use_gpu_of b ts)) calc') calc
         \<and> converter_of other calc' = converter_of other calc
         \<and> (\<forall>e\<in>set evs. event_backend e \<noteq> Some other)
         \<and> Process b env cc (set_converter other x calc) = (r, set_converter other x calc', evs)"
proof -
  have a: "calc' = set_converter (backend_of (use_gpu_of b ts))
                   (converter_of (backend_of (use_gpu_of b ts)) calc') calc"
    using assms(1,3) by (rule Process_only_selected)
  have "converter_of other (set_converter (backend_of (use_gpu_of b ts))
          (converter_of (backend_of (use_gpu_of b ts)) calc') calc) = converter_of other calc"
    using assms(2) by (intro converter_of_set_other) simp
  with a have c: "converter_of other calc' = converter_of other calc" by simp
  from Process_events [OF assms(1,3)] obtain rest where
    e: "evs = SelectBackend (backend_of (use_gpu_of b ts)) # ValidateInput # rest"
       "\<forall>e\<in>set rest. event_backend e = None \<or>
                     event_backend e = Some (backend_of (use_gpu_of b ts))" by blast
  have d: "\<forall>e\<in>set evs. event_backend e \<noteq> Some other"
  proof
    fix ev assume "ev \<in> set evs"
    with e have "event_backend ev = None \<or>
                 event_backend ev = Some (backend_of (use_gpu_of b ts))"
      by auto
    with assms(2) show "event_backend ev \<noteq> Some other" by auto
  qed
  from Process_frame [OF assms(1,2), of env x calc] assms(3)
  have "Process b env cc (set_converter other x calc) = (r, set_converter other x calc', evs)"
    by simp
  with a c d show ?thesis by blast
qed

theorem unselected_converter_untouched_witness:
  "TENSORS (snd ex_call) = Some [ex_tensor kFloat32 [256, 256, 1] False]
   \<and> GPU \<noteq> backend_of (use_gpu_of ex_build [ex_tensor kFloat32 [256, 256, 1] False])
   \<and> Process ex_build ex_env (snd ex_call) ex_calc
       = (Returns OkStatus, ex_calc\<lparr>cpu_converter_m := Some (ConverterHandle 2)\<rparr>,
          [SelectBackend CPU, ValidateInput, Construct CPU,
           ConvertCall CPU (ConverterHandle 2) [ex_tensor kFloat32 [256, 256, 1] False] 256 256,
           AddMask (ImageHandle 7) 5])
   \<and> Process ex_build ex_env (snd ex_call) (set_converter GPU (Some (ConverterHandle 9)) ex_calc)
       = (Returns OkStatus,
          set_converter GPU (Some (ConverterHandle 9))
            (ex_calc\<lparr>cpu_converter_m := Some (ConverterHandle 2)\<rparr>),
          [SelectBackend CPU, ValidateInput, Construct CPU,
           ConvertCall CPU (ConverterHandle 2) [ex_tensor kFloat32 [256, 256, 1] False] 256 256,
           AddMask (ImageHandle 7) 5])"
proof -
  have t: "TENSORS (snd ex_call) = Some [ex_tensor kFloat32 [256, 256, 1] False]"
    by (simp add: ex_defs)
  have o: "GPU \<noteq> backend_of (use_gpu_of ex_build [ex_tensor kFloat32 [256, 256, 1] False])"
    by (simp add: ex_defs model_defs)
  have p: "Process ex_build ex_env (snd ex_call) ex_calc
       = (Returns OkStatus, ex_calc\<lparr>cpu_converter_m := Some (ConverterHandle 2)\<rparr>,
          [SelectBackend CPU, ValidateInput, Construct CPU,
           ConvertCall CPU (ConverterHandle 2) [ex_tensor kFloat32 [256, 256, 1] False] 256 256,
           AddMask (ImageHandle 7) 5])"
    by (simp add: ex_defs model_defs)
  from t o p unselected_converter_untouched [OF t o p, of "Some (ConverterHandle 9)"]
  show ?thesis by blast
qed

end
